theory Spec2Isabelle
  imports Main
begin

section \<open>The Task document\<close>

text \<open>
  \<^verbatim>\<open>
  const TaskSchema = new mongoose.Schema({
    title: { type: String, required: true },
    description: String,
    dueDate: Date,
    isCompleted: { type: Boolean, default: false },
    createdAt: { type: Date, default: Date.now },
  });
  \<close>
  A document has the five paths the schema declares and \<open>_id\<close>, the path mongoose adds
  to every schema (read by the client as \<open>task._id\<close>, matched by the routes against
  \<open>req.params.id\<close>). Nothing in the schema forbids \<open>null\<close> at a path, and a path may be
  missing altogether, so a path is missing, \<open>null\<close> or holds a value of its type. \<open>_id\<close>
  is never missing: it is an ObjectId (here a natural number) or \<open>null\<close>. A date is its
  time value, the number of milliseconds since the epoch.
\<close>

type_synonym oid = nat
type_synonym date = int

datatype 'a slot = Missing | IsNull | Has 'a

record task =
  oid :: "oid option"
  title :: "string slot"
  description :: "string slot"
  dueDate :: "date slot"
  isCompleted :: "bool slot"
  createdAt :: "date slot"

section \<open>Errors, responses\<close>

text \<open>
  The errors a call into mongoose ends with: a document that fails validation, a value that
  does not cast to the type of its path, a store that does not answer, and a write the
  store refuses (a duplicate \<open>_id\<close>, a change of \<open>_id\<close>, an update it cannot read).
\<close>

datatype error = ValidationError | CastError | StoreUnavailable | WriteError

text \<open>
  What a handler passes to \<open>res.json\<close> or \<open>res.send\<close>: one document, the array of
  documents, \<open>null\<close>, or nothing. A handler is an \<open>async\<close> function with no \<open>try\<close>: it
  either writes one response or stops at the first call that throws or rejects, with
  nothing written, and the error leaves it as the rejection of its promise.
\<close>

datatype json = JTask task | JTasks "task list" | JNull | NoBody

record response =
  status :: nat
  payload :: json

datatype outcome = Responded response | Rejected error

text \<open>The status line of the response a handler wrote, if it wrote one.\<close>

definition status_of :: "outcome \<Rightarrow> nat option" where
  "status_of out = (case out of Responded r \<Rightarrow> Some (status r) | Rejected err \<Rightarrow> None)"

section \<open>The request\<close>

text \<open>
  \<open>req.body\<close> as mongoose reads it. At each path of the schema the body is silent, gives
  \<open>null\<close>, gives a value that casts to the type of the path (\<open>Val\<close> holds the result of
  the cast; for a date path, the time value the body's number or date string denotes,
  whose range is checked below), or gives a value that does not cast.
\<close>

datatype 'a field = Absent | Null | Val 'a | Uncastable

text \<open>
  The rest of the body matters to \<open>findByIdAndUpdate\<close> only. A body whose keys are all
  plain paths has no update operators. A body with keys such as \<open>$set\<close> or \<open>$unset\<close>,
  or a body that is an array (an update pipeline), is read by mongoose and MongoDB as a
  whole: mongoose fails to cast it, or the store refuses it, or it has an effect on the
  document it is applied to, which may itself fail. That reading is not computed here;
  such a body carries it.
\<close>

datatype operators =
  NoOperators | BadCast | BadUpdate | Effect "task \<Rightarrow> error + task"

record req_body =
  b_id :: "oid field"
  b_title :: "string field"
  b_description :: "string field"
  b_dueDate :: "int field"
  b_isCompleted :: "bool field"
  b_createdAt :: "int field"
  b_operators :: operators

definition empty_body :: req_body where
  "empty_body = \<lparr>b_id = Absent, b_title = Absent, b_description = Absent, b_dueDate = Absent,
     b_isCompleted = Absent, b_createdAt = Absent, b_operators = NoOperators\<rparr>"

definition title_body :: "string \<Rightarrow> req_body" where
  "title_body x = empty_body\<lparr>b_title := Val x\<rparr>"

text \<open>
  \<open>req.params.id\<close> is any string. Either it casts to an ObjectId or it does not.
\<close>

datatype id_param = WellFormed oid | IllFormed

text \<open>
  A time value is that of a valid \<open>Date\<close> within 8.64e15 milliseconds of the epoch; the
  cast to \<open>Date\<close> fails beyond.
\<close>

definition valid_date :: "int \<Rightarrow> bool" where
  "valid_date n = (- 8640000000000000 \<le> n \<and> n \<le> 8640000000000000)"

definition date_error :: "int field \<Rightarrow> bool" where
  "date_error f = (case f of Uncastable \<Rightarrow> True | Val n \<Rightarrow> \<not> valid_date n | _ \<Rightarrow> False)"

text \<open>Some plain path of the body has a value that fails the cast to the path's type.\<close>

definition cast_errors :: "req_body \<Rightarrow> bool" where
  "cast_errors b =
     (b_id b = Uncastable \<or> b_title b = Uncastable \<or> b_description b = Uncastable \<or>
      date_error (b_dueDate b) \<or> b_isCompleted b = Uncastable \<or> date_error (b_createdAt b))"

text \<open>
  Setting a path from the body: a silent body (or a value that failed its cast) leaves what
  was there, \<open>null\<close> and a value replace it.
\<close>

definition assign :: "'a field \<Rightarrow> 'a slot \<Rightarrow> 'a slot" where
  "assign f old = (case f of Absent \<Rightarrow> old | Null \<Rightarrow> IsNull | Val v \<Rightarrow> Has v | Uncastable \<Rightarrow> old)"

definition assign_id :: "oid field \<Rightarrow> oid option \<Rightarrow> oid option" where
  "assign_id f old = (case f of Absent \<Rightarrow> old | Null \<Rightarrow> None | Val i \<Rightarrow> Some i | Uncastable \<Rightarrow> old)"

section \<open>The store\<close>

text \<open>
  The state behind \<open>mongoose\<close>: the connection's \<open>readyState\<close> and the documents of the
  Task collection in insertion order. What one request finds outside the handler is its
  environment: the clock read by \<open>Date.now\<close>, the ObjectId the generator hands out for a
  new document, whether \<open>mongoose.connect\<close> would succeed, and whether the store answers
  the one query the handler sends (\<open>save\<close>, \<open>find\<close>, \<open>findByIdAndUpdate\<close> or
  \<open>findByIdAndDelete\<close>).
\<close>

record store =
  readyState :: nat
  docs :: "task list"

record env =
  now :: date
  new_oid :: oid
  connect_ok :: bool
  io_ok :: bool

text \<open>
  \<^verbatim>\<open>
  const connectDB = async () => {
    if (mongoose.connection.readyState >= 1) return;
    await mongoose.connect(process.env.MONGODB_URI, {...});
  };
  \<close>
\<close>

definition connectDB :: "env \<Rightarrow> store \<Rightarrow> error + store" where
  "connectDB e s =
     (if readyState s \<ge> 1 then Inr s
      else if connect_ok e then Inr (s\<lparr>readyState := 1\<rparr>)
      else Inl StoreUnavailable)"

text \<open>\<open>connectDB\<close> returns: the early return is taken or the connection is made.\<close>

definition connects :: "env \<Rightarrow> store \<Rightarrow> bool" where
  "connects e s = (readyState s \<ge> 1 \<or> connect_ok e)"

text \<open>No store call of the request fails: \<open>connectDB\<close> returns and the query is answered.\<close>

definition served :: "env \<Rightarrow> store \<Rightarrow> bool" where
  "served e s = (connects e s \<and> io_ok e)"

text \<open>
  \<open>new Task(req.body)\<close>. The document gets a generated \<open>_id\<close> and the schema's defaults
  (\<open>false\<close>, \<open>Date.now\<close>), and then every path the body names is set from the body,
  \<open>_id\<close> included; a default stays only where the body is silent. Keys that are not paths
  of the schema are dropped. A value that fails its cast is not set; the failure is kept
  with the document and reported when the document is validated.
\<close>

record document =
  doc :: task
  castError :: bool

definition new_Task :: "env \<Rightarrow> req_body \<Rightarrow> document" where
  "new_Task e b =
     \<lparr>doc = \<lparr>oid = assign_id (b_id b) (Some (new_oid e)),
             title = assign (b_title b) Missing,
             description = assign (b_description b) Missing,
             dueDate = assign (b_dueDate b) Missing,
             isCompleted = assign (b_isCompleted b) (Has False),
             createdAt = assign (b_createdAt b) (Has (now e))\<rparr>,
      castError = cast_errors b\<rparr>"

text \<open>
  \<open>required: true\<close> on a String path: the value must be a string of non-zero length.
\<close>

definition checkRequired :: "string slot \<Rightarrow> bool" where
  "checkRequired v = (case v of Has x \<Rightarrow> x \<noteq> [] | _ \<Rightarrow> False)"

text \<open>
  \<open>newTask.save()\<close>: the document is validated first, in the process; then it is sent to
  the store, which refuses a document whose \<open>_id\<close> is already in the collection.
\<close>

definition save :: "env \<Rightarrow> document \<Rightarrow> store \<Rightarrow> error + store" where
  "save e d s =
     (if castError d \<or> \<not> checkRequired (title (doc d)) then Inl ValidationError
      else if \<not> io_ok e then Inl StoreUnavailable
      else if oid (doc d) \<in> set (map oid (docs s)) then Inl WriteError
      else Inr (s\<lparr>docs := docs s @ [doc d]\<rparr>))"

text \<open>\<open>Task.find()\<close> with no filter: every document.\<close>

definition find_all :: "env \<Rightarrow> store \<Rightarrow> error + task list" where
  "find_all e s = (if io_ok e then Inr (docs s) else Inl StoreUnavailable)"

text \<open>The document with a given ObjectId, if the collection has one.\<close>

fun findById :: "oid \<Rightarrow> task list \<Rightarrow> task option" where
  "findById i [] = None"
| "findById i (t # ts) = (if oid t = Some i then Some t else findById i ts)"

text \<open>
  The update document of \<open>findByIdAndUpdate\<close> is the request body itself. Without
  operators, every path the body names is set to the body's value (or to \<open>null\<close>) and
  every other path keeps its value; an update that names no path changes nothing. The
  call is made with \<open>{ new: true }\<close> only, so no validator runs and no default is applied.
\<close>

definition apply_paths :: "req_body \<Rightarrow> task \<Rightarrow> task" where
  "apply_paths b t =
     t\<lparr>oid := assign_id (b_id b) (oid t),
       title := assign (b_title b) (title t),
       description := assign (b_description b) (description t),
       dueDate := assign (b_dueDate b) (dueDate t),
       isCompleted := assign (b_isCompleted b) (isCompleted t),
       createdAt := assign (b_createdAt b) (createdAt t)\<rparr>"

definition update_cast_error :: "req_body \<Rightarrow> bool" where
  "update_cast_error b =
     (case b_operators b of NoOperators \<Rightarrow> cast_errors b | BadCast \<Rightarrow> True | _ \<Rightarrow> False)"

definition update_refused :: "req_body \<Rightarrow> bool" where
  "update_refused b = (case b_operators b of BadUpdate \<Rightarrow> True | _ \<Rightarrow> False)"

definition update_effect :: "req_body \<Rightarrow> task \<Rightarrow> error + task" where
  "update_effect b = (case b_operators b of Effect f \<Rightarrow> f | _ \<Rightarrow> (\<lambda>t. Inr (apply_paths b t)))"

text \<open>
  The store applies the update to the document with the given \<open>_id\<close> and returns the
  document as it is afterwards (\<open>new: true\<close>), or \<open>null\<close> (here \<open>None\<close>) when there is no
  such document. It refuses an update that would change the \<open>_id\<close>.
\<close>

fun update_docs ::
  "oid \<Rightarrow> (task \<Rightarrow> error + task) \<Rightarrow> task list \<Rightarrow> error + (task option \<times> task list)" where
  "update_docs i f [] = Inr (None, [])"
| "update_docs i f (t # ts) =
     (if oid t = Some i then
        (case f t of
           Inl err \<Rightarrow> Inl err
         | Inr t' \<Rightarrow> if oid t' = oid t then Inr (Some t', t' # ts) else Inl WriteError)
      else
        (case update_docs i f ts of
           Inl err \<Rightarrow> Inl err
         | Inr (r, ts') \<Rightarrow> Inr (r, t # ts')))"

text \<open>
  \<open>Task.findByIdAndUpdate(req.params.id, req.body, { new: true })\<close>: mongoose casts the
  identifier and the update, and only then sends the query.
\<close>

definition findByIdAndUpdate ::
  "env \<Rightarrow> id_param \<Rightarrow> req_body \<Rightarrow> store \<Rightarrow> error + (task option \<times> store)" where
  "findByIdAndUpdate e p b s =
     (case p of
        IllFormed \<Rightarrow> Inl CastError
      | WellFormed i \<Rightarrow>
          if update_cast_error b then Inl CastError
          else if \<not> io_ok e then Inl StoreUnavailable
          else if update_refused b then Inl WriteError
          else (case update_docs i (update_effect b) (docs s) of
                  Inl err \<Rightarrow> Inl err
                | Inr (r, ts) \<Rightarrow> Inr (r, s\<lparr>docs := ts\<rparr>)))"

text \<open>
  \<open>Task.findByIdAndDelete(req.params.id)\<close>: the document removed, or \<open>null\<close> when there
  was none.
\<close>

fun delete_docs :: "oid \<Rightarrow> task list \<Rightarrow> task option \<times> task list" where
  "delete_docs i [] = (None, [])"
| "delete_docs i (t # ts) =
     (if oid t = Some i then (Some t, ts)
      else (case delete_docs i ts of (r, ts') \<Rightarrow> (r, t # ts')))"

definition findByIdAndDelete ::
  "env \<Rightarrow> id_param \<Rightarrow> store \<Rightarrow> error + (task option \<times> store)" where
  "findByIdAndDelete e p s =
     (case p of
        IllFormed \<Rightarrow> Inl CastError
      | WellFormed i \<Rightarrow>
          if \<not> io_ok e then Inl StoreUnavailable
          else (case delete_docs i (docs s) of (r, ts) \<Rightarrow> Inr (r, s\<lparr>docs := ts\<rparr>)))"

section \<open>The route handlers\<close>

text \<open>
  \<^verbatim>\<open>
  app.post('/api/tasks', async (req, res) => {
    await connectDB();
    const newTask = new Task(req.body);
    await newTask.save();
    res.status(201).json(newTask);
  });
  \<close>
\<close>

definition post_tasks :: "env \<Rightarrow> req_body \<Rightarrow> store \<Rightarrow> outcome \<times> store" where
  "post_tasks e b s =
     (case connectDB e s of
        Inl err \<Rightarrow> (Rejected err, s)
      | Inr s1 \<Rightarrow>
          (let newTask = new_Task e b in
           case save e newTask s1 of
             Inl err \<Rightarrow> (Rejected err, s1)
           | Inr s2 \<Rightarrow> (Responded \<lparr>status = 201, payload = JTask (doc newTask)\<rparr>, s2)))"

text \<open>
  \<^verbatim>\<open>
  app.get('/api/tasks', async (req, res) => {
    await connectDB();
    const tasks = await Task.find();
    res.status(200).json(tasks);
  });
  \<close>
\<close>

definition get_tasks :: "env \<Rightarrow> store \<Rightarrow> outcome \<times> store" where
  "get_tasks e s =
     (case connectDB e s of
        Inl err \<Rightarrow> (Rejected err, s)
      | Inr s1 \<Rightarrow>
          (case find_all e s1 of
             Inl err \<Rightarrow> (Rejected err, s1)
           | Inr tasks \<Rightarrow> (Responded \<lparr>status = 200, payload = JTasks tasks\<rparr>, s1)))"

text \<open>
  \<^verbatim>\<open>
  app.put('/api/tasks/:id', async (req, res) => {
    await connectDB();
    const updatedTask = await Task.findByIdAndUpdate(req.params.id, req.body, { new: true });
    res.status(200).json(updatedTask);
  });
  \<close>
\<close>

definition put_task :: "env \<Rightarrow> id_param \<Rightarrow> req_body \<Rightarrow> store \<Rightarrow> outcome \<times> store" where
  "put_task e p b s =
     (case connectDB e s of
        Inl err \<Rightarrow> (Rejected err, s)
      | Inr s1 \<Rightarrow>
          (case findByIdAndUpdate e p b s1 of
             Inl err \<Rightarrow> (Rejected err, s1)
           | Inr (updatedTask, s2) \<Rightarrow>
               (Responded \<lparr>status = 200,
                   payload = (case updatedTask of None \<Rightarrow> JNull | Some t \<Rightarrow> JTask t)\<rparr>, s2)))"

text \<open>
  \<^verbatim>\<open>
  app.delete('/api/tasks/:id', async (req, res) => {
    await connectDB();
    await Task.findByIdAndDelete(req.params.id);
    res.status(204).send();
  });
  \<close>
\<close>

definition delete_task :: "env \<Rightarrow> id_param \<Rightarrow> store \<Rightarrow> outcome \<times> store" where
  "delete_task e p s =
     (case connectDB e s of
        Inl err \<Rightarrow> (Rejected err, s)
      | Inr s1 \<Rightarrow>
          (case findByIdAndDelete e p s1 of
             Inl err \<Rightarrow> (Rejected err, s1)
           | Inr (r, s2) \<Rightarrow> (Responded \<lparr>status = 204, payload = NoBody\<rparr>, s2)))"

text \<open>A sequence of requests, each against the store its predecessor left.\<close>

datatype request = Post req_body | Get | Put id_param req_body | Delete id_param

fun handle :: "env \<Rightarrow> request \<Rightarrow> store \<Rightarrow> outcome \<times> store" where
  "handle e (Post b) s = post_tasks e b s"
| "handle e Get s = get_tasks e s"
| "handle e (Put p b) s = put_task e p b s"
| "handle e (Delete p) s = delete_task e p s"

fun run :: "(env \<times> request) list \<Rightarrow> store \<Rightarrow> store" where
  "run [] s = s"
| "run ((e, r) # rs) s = run rs (snd (handle e r s))"

text \<open>The store of a process that has served no request yet, on an empty collection.\<close>

definition init_store :: store where
  "init_store = \<lparr>readyState = 0, docs = []\<rparr>"

text \<open>
  An environment in which the store answers: the clock reads \<open>d\<close> and the generator hands
  out \<open>i\<close>. In \<open>down\<close> the connection cannot be made and no query is answered.
\<close>

definition up :: "date \<Rightarrow> oid \<Rightarrow> env" where
  "up d i = \<lparr>now = d, new_oid = i, connect_ok = True, io_ok = True\<rparr>"

definition down :: "date \<Rightarrow> oid \<Rightarrow> env" where
  "down d i = \<lparr>now = d, new_oid = i, connect_ok = False, io_ok = False\<rparr>"

text \<open>
  The store a fresh process holds after one \<open>POST /api/tasks\<close> with body
  \<open>{title: "a"}\<close>, served at time 100 with generated identifier 0.
\<close>

definition one_task_store :: store where
  "one_task_store = snd (post_tasks (up 100 0) (title_body ''a'') init_store)"

definition task_a :: task where
  "task_a = \<lparr>oid = Some 0, title = Has ''a'', description = Missing, dueDate = Missing,
     isCompleted = Has False, createdAt = Has 100\<rparr>"

section \<open>Facts about the store operations\<close>

lemma connectDB_connects:
  "connects e s \<Longrightarrow>
     connectDB e s = Inr (if readyState s \<ge> 1 then s else s\<lparr>readyState := 1\<rparr>)"
  by (auto simp: connectDB_def connects_def)

lemma connectDB_fails: "\<not> connects e s \<Longrightarrow> connectDB e s = Inl StoreUnavailable"
  by (simp add: connectDB_def connects_def)

lemma one_task_store_eq: "one_task_store = \<lparr>readyState = 1, docs = [task_a]\<rparr>"
  by (simp add: one_task_store_def task_a_def post_tasks_def connectDB_def new_Task_def
      save_def checkRequired_def cast_errors_def date_error_def assign_def assign_id_def
      up_def title_body_def empty_body_def init_store_def)

lemma served_up: "served (up d i) s"
  by (simp add: served_def connects_def up_def)

subsection \<open>Creating\<close>

lemma post_tasks_unconnected:
  "\<not> connects e s \<Longrightarrow> post_tasks e b s = (Rejected StoreUnavailable, s)"
  by (simp add: post_tasks_def connectDB_fails)

lemma post_tasks_invalid:
  "connects e s \<Longrightarrow> cast_errors b \<or> \<not> checkRequired (assign (b_title b) Missing) \<Longrightarrow>
     post_tasks e b s =
       (Rejected ValidationError, if readyState s \<ge> 1 then s else s\<lparr>readyState := 1\<rparr>)"
  by (auto simp: post_tasks_def connectDB_connects new_Task_def save_def Let_def)

lemma post_tasks_valid:
  "served e s \<Longrightarrow> \<not> cast_errors b \<Longrightarrow> checkRequired (assign (b_title b) Missing) \<Longrightarrow>
   oid (doc (new_Task e b)) \<notin> set (map oid (docs s)) \<Longrightarrow>
     post_tasks e b s =
       (Responded \<lparr>status = 201, payload = JTask (doc (new_Task e b))\<rparr>,
        (if readyState s \<ge> 1 then s else s\<lparr>readyState := 1\<rparr>)
          \<lparr>docs := docs s @ [doc (new_Task e b)]\<rparr>)"
  by (auto simp: post_tasks_def served_def connectDB_connects new_Task_def save_def Let_def)

lemma post_tasks_Responded:
  assumes "post_tasks e b s = (Responded r, s')"
  shows "\<exists>d. r = \<lparr>status = 201, payload = JTask d\<rparr> \<and> docs s' = docs s @ [d] \<and>
           oid d \<notin> set (map oid (docs s)) \<and> readyState s' \<ge> 1"
  using assms
  by (auto simp: post_tasks_def connectDB_def save_def Let_def
      split: sum.splits if_splits)

lemma post_tasks_docs:
  "docs (snd (post_tasks e b s)) = docs s \<or>
   (\<exists>d. docs (snd (post_tasks e b s)) = docs s @ [d] \<and> oid d \<notin> set (map oid (docs s)))"
  by (auto simp: post_tasks_def connectDB_def save_def Let_def
      split: sum.splits if_splits)

subsection \<open>Updating\<close>

lemma findById_None_iff: "findById i ts = None \<longleftrightarrow> Some i \<notin> oid ` set ts"
  by (induction ts) auto

lemma update_docs_absent:
  "findById i ts = None \<Longrightarrow> update_docs i f ts = Inr (None, ts)"
  by (induction ts) (auto split: if_splits)

lemma update_docs_present:
  "findById i ts = Some t \<Longrightarrow> f t = Inr t' \<Longrightarrow> oid t' = oid t \<Longrightarrow>
     \<exists>ts'. update_docs i f ts = Inr (Some t', ts') \<and> findById i ts' = Some t'"
  by (induction ts) (auto split: if_splits)

lemma update_docs_same:
  "findById i ts = Some t \<Longrightarrow> f t = Inr t \<Longrightarrow> update_docs i f ts = Inr (Some t, ts)"
  by (induction ts) (auto split: if_splits)

lemma update_docs_keeps:
  assumes "update_docs i f ts = Inr (r, ts')"
    and "\<And>t t'. f t = Inr t' \<Longrightarrow> g t' = g t"
  shows "map (\<lambda>t. (oid t, g t)) ts' = map (\<lambda>t. (oid t, g t)) ts"
  using assms(1)
proof (induction ts arbitrary: r ts')
  case Nil
  then show ?case by simp
next
  case (Cons t ts)
  show ?case
  proof (cases "oid t = Some i")
    case True
    with Cons.prems assms(2) show ?thesis
      by (auto split: sum.splits if_splits)
  next
    case False
    with Cons.prems obtain r0 ts0 where
      "update_docs i f ts = Inr (r0, ts0)" and "ts' = t # ts0"
      by (auto split: sum.splits)
    with Cons.IH show ?thesis by simp
  qed
qed

lemma update_docs_ids:
  "update_docs i f ts = Inr (r, ts') \<Longrightarrow> map oid ts' = map oid ts"
proof -
  assume "update_docs i f ts = Inr (r, ts')"
  then have "map (\<lambda>t. (oid t, ())) ts' = map (\<lambda>t. (oid t, ())) ts"
    by (rule update_docs_keeps) simp
  then have "map fst (map (\<lambda>t. (oid t, ())) ts') = map fst (map (\<lambda>t. (oid t, ())) ts)"
    by simp
  then show ?thesis by (simp add: comp_def)
qed

lemma findById_cong_map:
  "map (\<lambda>t. (oid t, g t)) ts' = map (\<lambda>t. (oid t, g t)) ts \<Longrightarrow>
     map_option g (findById j ts') = map_option g (findById j ts)"
proof (induction ts arbitrary: ts')
  case Nil
  then show ?case by simp
next
  case (Cons t ts)
  from Cons.prems obtain t' ts0 where ts': "ts' = t' # ts0"
    by (cases ts') auto
  with Cons.prems have hd: "oid t' = oid t" "g t' = g t"
    and tl: "map (\<lambda>t. (oid t, g t)) ts0 = map (\<lambda>t. (oid t, g t)) ts"
    by simp_all
  from Cons.IH [OF tl] hd ts' show ?case by simp
qed

lemma map_keeps:
  "map (\<lambda>t. (oid t, g t)) ts' = map (\<lambda>t. (oid t, g t)) ts \<Longrightarrow> map g ts' = map g ts"
proof -
  assume "map (\<lambda>t. (oid t, g t)) ts' = map (\<lambda>t. (oid t, g t)) ts"
  then have "map snd (map (\<lambda>t. (oid t, g t)) ts') = map snd (map (\<lambda>t. (oid t, g t)) ts)"
    by simp
  then show ?thesis by (simp add: comp_def)
qed

lemma put_task_unconnected:
  "\<not> connects e s \<Longrightarrow> put_task e p b s = (Rejected StoreUnavailable, s)"
  by (simp add: put_task_def connectDB_fails)

lemma put_task_ill_formed:
  "connects e s \<Longrightarrow>
     put_task e IllFormed b s =
       (Rejected CastError, if readyState s \<ge> 1 then s else s\<lparr>readyState := 1\<rparr>)"
  by (simp add: put_task_def connectDB_connects findByIdAndUpdate_def)

lemma put_task_served:
  "served e s \<Longrightarrow> b_operators b = NoOperators \<Longrightarrow> \<not> cast_errors b \<Longrightarrow>
     put_task e (WellFormed i) b s =
       (case update_docs i (\<lambda>t. Inr (apply_paths b t)) (docs s) of
          Inl err \<Rightarrow> (Rejected err, if readyState s \<ge> 1 then s else s\<lparr>readyState := 1\<rparr>)
        | Inr (r, ts) \<Rightarrow>
            (Responded \<lparr>status = 200,
                payload = (case r of None \<Rightarrow> JNull | Some t \<Rightarrow> JTask t)\<rparr>,
             (if readyState s \<ge> 1 then s else s\<lparr>readyState := 1\<rparr>)\<lparr>docs := ts\<rparr>))"
  by (auto simp: put_task_def served_def connectDB_connects findByIdAndUpdate_def
      update_cast_error_def update_refused_def update_effect_def split: sum.splits)

lemma put_task_docs:
  "docs (snd (put_task e p b s)) = docs s \<or>
   (\<exists>i r. p = WellFormed i \<and>
      update_docs i (update_effect b) (docs s) = Inr (r, docs (snd (put_task e p b s))))"
  by (auto simp: put_task_def connectDB_def findByIdAndUpdate_def
      split: sum.splits if_splits id_param.splits)

lemma put_task_Responded:
  assumes "put_task e p b s = (Responded r, s')"
  shows "\<exists>i u. p = WellFormed i \<and> update_docs i (update_effect b) (docs s) = Inr (u, docs s') \<and>
           r = \<lparr>status = 200, payload = (case u of None \<Rightarrow> JNull | Some t \<Rightarrow> JTask t)\<rparr>"
  using assms
  by (auto simp: put_task_def connectDB_def findByIdAndUpdate_def
      split: sum.splits if_splits id_param.splits)

lemma apply_paths_empty: "apply_paths empty_body t = t"
  by (simp add: apply_paths_def empty_body_def assign_def assign_id_def)

lemma apply_paths_title: "apply_paths (title_body x) t = t\<lparr>title := Has x\<rparr>"
  by (simp add: apply_paths_def title_body_def empty_body_def assign_def assign_id_def)

lemma plain_empty_body: "b_operators empty_body = NoOperators \<and> \<not> cast_errors empty_body"
  by (simp add: empty_body_def cast_errors_def date_error_def)

lemma plain_title_body: "b_operators (title_body x) = NoOperators \<and> \<not> cast_errors (title_body x)"
  by (simp add: title_body_def empty_body_def cast_errors_def date_error_def)

subsection \<open>Deleting\<close>



lemma set_delete_docs: "set (snd (delete_docs i ts)) \<subseteq> set ts"
  by (induction ts) (auto split: prod.splits)

lemma distinct_delete_docs:
  "distinct (map oid ts) \<Longrightarrow> distinct (map oid (snd (delete_docs i ts)))"
proof (induction ts)
  case Nil
  then show ?case by simp
next
  case (Cons t ts)
  have "oid ` set (snd (delete_docs i ts)) \<subseteq> oid ` set ts"
    using set_delete_docs [of i ts] by blast
  with Cons show ?case by (auto split: prod.splits) blast
qed




lemma delete_task_docs:
  "docs (snd (delete_task e p s)) = docs s \<or>
   (\<exists>i. p = WellFormed i \<and> docs (snd (delete_task e p s)) = snd (delete_docs i (docs s)))"
  by (auto simp: delete_task_def connectDB_def findByIdAndDelete_def
      split: sum.splits if_splits id_param.splits prod.splits)

subsection \<open>Identifiers stay pairwise different\<close>

lemma distinct_post: "distinct (map oid (docs s)) \<Longrightarrow> distinct (map oid (docs (snd (post_tasks e b s))))"
  using post_tasks_docs [of e b s] by auto

lemma distinct_put: "distinct (map oid (docs s)) \<Longrightarrow> distinct (map oid (docs (snd (put_task e p b s))))"
  using put_task_docs [of e p b s] by (auto dest: update_docs_ids)

lemma distinct_delete:
  "distinct (map oid (docs s)) \<Longrightarrow> distinct (map oid (docs (snd (delete_task e p s))))"
  using delete_task_docs [of e p s] by (auto simp: distinct_delete_docs)

lemma docs_get: "docs (snd (get_tasks e s)) = docs s"
  by (auto simp: get_tasks_def connectDB_def find_all_def split: sum.splits)

lemma distinct_handle:
  "distinct (map oid (docs s)) \<Longrightarrow> distinct (map oid (docs (snd (handle e r s))))"
  by (cases r) (simp_all add: distinct_post distinct_put distinct_delete docs_get)

lemma distinct_run: "distinct (map oid (docs s)) \<Longrightarrow> distinct (map oid (docs (run rs s)))"
  by (induction rs arbitrary: s) (auto simp: distinct_handle)

lemma ids_distinct_from_init: "distinct (map oid (docs (run rs init_store)))"
  by (rule distinct_run) (simp add: init_store_def)

subsection \<open>A store that does not answer\<close>

text \<open>
  The early return of \<open>connectDB\<close> says nothing about the store: with the connection
  marked ready and the store not answering, the query of every handler rejects and no
  response is written. Validation alone is decided before the query.
\<close>

lemma unanswered_query_writes_nothing:
  assumes "\<not> io_ok e"
  shows "status_of (fst (get_tasks e s)) = None"
    and "status_of (fst (put_task e p b s)) = None"
    and "status_of (fst (delete_task e p s)) = None"
    and "status_of (fst (post_tasks e b s)) = None"
  using assms
  by (auto simp: status_of_def get_tasks_def put_task_def delete_task_def post_tasks_def
      connectDB_def find_all_def findByIdAndUpdate_def findByIdAndDelete_def save_def Let_def
      split: id_param.splits)

lemma dead_store_example:
  "readyState one_task_store = 1 \<and>
   fst (get_tasks (down 300 2) one_task_store) = Rejected StoreUnavailable \<and>
   fst (put_task (down 300 2) (WellFormed 0) (title_body ''X'') one_task_store) =
     Rejected StoreUnavailable \<and>
   fst (delete_task (down 300 2) (WellFormed 0) one_task_store) = Rejected StoreUnavailable \<and>
   fst (post_tasks (down 300 2) (title_body ''b'') one_task_store) = Rejected StoreUnavailable"
  by (simp add: one_task_store_eq task_a_def get_tasks_def put_task_def delete_task_def
      post_tasks_def connectDB_def find_all_def findByIdAndUpdate_def findByIdAndDelete_def
      save_def new_Task_def checkRequired_def update_cast_error_def cast_errors_def
      date_error_def assign_def assign_id_def down_def title_body_def empty_body_def)

section \<open>The claims\<close>


text \<open>
  C1, as amended. Take a \<open>POST /api/tasks\<close> whose body has a non-empty title, does not
  name \<open>_id\<close> and gives no path a value that fails its cast, served while no store call
  fails and the generated identifier is not in use. It is answered with status 201 and the
  new Task, which is appended to the collection. The Task's identifier is the generated
  one and its title the body's; \<open>createdAt\<close> is the time of the request and
  \<open>isCompleted\<close> is false whenever the body is silent on them.
\<close>

theorem post_creates_task:
  assumes "served e s" and "b_title b = Val x" and "x \<noteq> []"
    and "\<not> cast_errors b" and "b_id b = Absent"
    and "findById (new_oid e) (docs s) = None"
  shows "\<exists>d. fst (post_tasks e b s) = Responded \<lparr>status = 201, payload = JTask d\<rparr> \<and>
           docs (snd (post_tasks e b s)) = docs s @ [d] \<and>
           oid d = Some (new_oid e) \<and> title d = Has x \<and>
           (b_createdAt b = Absent \<longrightarrow> createdAt d = Has (now e)) \<and>
           (b_isCompleted b = Absent \<longrightarrow> isCompleted d = Has False)"
proof -
  from assms(2,3) have req: "checkRequired (assign (b_title b) Missing)"
    by (simp add: checkRequired_def assign_def)
  from assms(5) have id: "oid (doc (new_Task e b)) = Some (new_oid e)"
    by (simp add: new_Task_def assign_id_def)
  from assms(6) have "oid (doc (new_Task e b)) \<notin> set (map oid (docs s))"
    by (simp add: id findById_None_iff)
  from post_tasks_valid [OF assms(1) assms(4) req this] id assms(2) show ?thesis
    by (simp add: new_Task_def assign_def)
qed

theorem post_creates_task_witness:
  "served (up 100 0) init_store \<and> b_title (title_body ''a'') = Val ''a'' \<and> ''a'' \<noteq> [] \<and>
   \<not> cast_errors (title_body ''a'') \<and> b_id (title_body ''a'') = Absent \<and>
   findById (new_oid (up 100 0)) (docs init_store) = None \<and>
   (\<exists>d. fst (post_tasks (up 100 0) (title_body ''a'') init_store) =
           Responded \<lparr>status = 201, payload = JTask d\<rparr> \<and>
         docs (snd (post_tasks (up 100 0) (title_body ''a'') init_store)) = docs init_store @ [d] \<and>
         oid d = Some (new_oid (up 100 0)) \<and> title d = Has ''a'' \<and>
         (b_createdAt (title_body ''a'') = Absent \<longrightarrow> createdAt d = Has (now (up 100 0))) \<and>
         (b_isCompleted (title_body ''a'') = Absent \<longrightarrow> isCompleted d = Has False))"
proof -
  have 1: "served (up 100 0) init_store"
    by (rule served_up)
  have 2: "b_title (title_body ''a'') = Val ''a''"
    by (simp add: title_body_def)
  have 3: "''a'' \<noteq> []" by simp
  have 4: "\<not> cast_errors (title_body ''a'')"
    by (simp add: plain_title_body)
  have 5: "b_id (title_body ''a'') = Absent"
    by (simp add: title_body_def empty_body_def)
  have 6: "findById (new_oid (up 100 0)) (docs init_store) = None"
    by (simp add: init_store_def)
  show ?thesis
    using 1 2 4 5 6 post_creates_task [OF 1 2 3 4 5 6] by simp
qed

text \<open>
  C1 as stated promises a store-assigned identifier and \<open>createdAt\<close>, and status 201, to
  every body with a non-empty title. \<open>new Task(req.body)\<close> sets every path the body names:
  the body \<open>{title: "a", _id: 7, createdAt: 5}\<close>, served at time 100 with generated
  identifier 0, is answered 201 with identifier 7 and \<open>createdAt = 5\<close>. And a body whose
  \<open>dueDate\<close> does not cast to a date fails validation: no 201 is sent.
\<close>

theorem post_client_fields_counterexample:
  "served (up 100 0) init_store \<and>
   b_title ((title_body ''a'')\<lparr>b_id := Val 7, b_createdAt := Val 5\<rparr>) = Val ''a'' \<and>
   fst (post_tasks (up 100 0) ((title_body ''a'')\<lparr>b_id := Val 7, b_createdAt := Val 5\<rparr>) init_store) =
     Responded \<lparr>status = 201, payload = JTask \<lparr>oid = Some 7, title = Has ''a'',
       description = Missing, dueDate = Missing, isCompleted = Has False, createdAt = Has 5\<rparr>\<rparr> \<and>
   (7 :: oid) \<noteq> new_oid (up 100 0) \<and> (5 :: date) \<noteq> now (up 100 0) \<and>
   b_title ((title_body ''a'')\<lparr>b_dueDate := Uncastable\<rparr>) = Val ''a'' \<and>
   fst (post_tasks (up 100 0) ((title_body ''a'')\<lparr>b_dueDate := Uncastable\<rparr>) init_store) =
     Rejected ValidationError"
  by (simp add: served_def connects_def post_tasks_def connectDB_def new_Task_def save_def checkRequired_def
      cast_errors_def date_error_def valid_date_def assign_def assign_id_def
      up_def title_body_def empty_body_def init_store_def)

text \<open>
  C2. For a Task \<open>t\<close> stored under \<open>i\<close>, a \<open>PUT /api/tasks/i\<close> with body exactly
  \<open>{title: x}\<close>, served while no store call fails, is answered with status 200 and
  leaves under \<open>i\<close> the record \<open>t\<close> with its title replaced by \<open>x\<close>: the identifier,
  description, dueDate, isCompleted and createdAt are those of \<open>t\<close>.
\<close>

theorem put_title_only:
  assumes "served e s" and "findById i (docs s) = Some t"
  shows "fst (put_task e (WellFormed i) (title_body x) s) =
           Responded \<lparr>status = 200, payload = JTask (t\<lparr>title := Has x\<rparr>)\<rparr> \<and>
         findById i (docs (snd (put_task e (WellFormed i) (title_body x) s))) =
           Some (t\<lparr>title := Has x\<rparr>)"
proof -
  have "\<exists>ts'. update_docs i (\<lambda>t. Inr (apply_paths (title_body x) t)) (docs s) =
           Inr (Some (t\<lparr>title := Has x\<rparr>), ts') \<and>
         findById i ts' = Some (t\<lparr>title := Has x\<rparr>)"
    by (rule update_docs_present [OF assms(2)]) (simp_all add: apply_paths_title)
  then show ?thesis
    using assms(1) by (auto simp: put_task_served plain_title_body)
qed

theorem put_title_only_witness:
  "served (up 200 1) one_task_store \<and>
   findById 0 (docs one_task_store) =
     Some \<lparr>oid = Some 0, title = Has ''a'', description = Missing, dueDate = Missing,
           isCompleted = Has False, createdAt = Has 100\<rparr> \<and>
   fst (put_task (up 200 1) (WellFormed 0) (title_body ''X'') one_task_store) =
     Responded \<lparr>status = 200, payload = JTask \<lparr>oid = Some 0, title = Has ''X'',
       description = Missing, dueDate = Missing, isCompleted = Has False, createdAt = Has 100\<rparr>\<rparr> \<and>
   findById 0 (docs (snd (put_task (up 200 1) (WellFormed 0) (title_body ''X'') one_task_store))) =
     Some \<lparr>oid = Some 0, title = Has ''X'', description = Missing, dueDate = Missing,
           isCompleted = Has False, createdAt = Has 100\<rparr>"
proof -
  have a: "served (up 200 1) one_task_store"
    by (rule served_up)
  have f: "findById 0 (docs one_task_store) = Some task_a"
    by (simp add: one_task_store_eq task_a_def)
  show ?thesis
    using a f put_title_only [OF a f, of "''X''"] by (simp add: task_a_def)
qed

text \<open>
  C3, as amended. For an identifier \<open>i\<close> that no stored Task has, \<open>PUT /api/tasks/i\<close>
  is never answered 200 with a Task and never 404, whatever the body and whether or not
  the store answers, and the collection is left as it was. When no store call fails and the
  update is one mongoose casts and the store accepts, the answer is status 200 with the
  body \<open>null\<close>. For a parameter that is not a well-formed identifier the handler stops
  with an error, writes no response and leaves the collection as it was.
\<close>

theorem put_absent_id:
  assumes "findById i (docs s) = None"
  shows "(\<forall>t. fst (put_task e (WellFormed i) b s) \<noteq> Responded \<lparr>status = 200, payload = JTask t\<rparr>) \<and>
         status_of (fst (put_task e (WellFormed i) b s)) \<noteq> Some 404 \<and>
         docs (snd (put_task e (WellFormed i) b s)) = docs s \<and>
         (served e s \<and> \<not> update_cast_error b \<and> \<not> update_refused b \<longrightarrow>
            fst (put_task e (WellFormed i) b s) = Responded \<lparr>status = 200, payload = JNull\<rparr>) \<and>
         status_of (fst (put_task e IllFormed b s)) = None \<and>
         docs (snd (put_task e IllFormed b s)) = docs s"
proof -
  have absent: "update_docs i (update_effect b) (docs s) = Inr (None, docs s)"
    using assms by (rule update_docs_absent)
  have well: "fst (put_task e (WellFormed i) b s) =
      (if \<not> connects e s then Rejected StoreUnavailable
       else if update_cast_error b then Rejected CastError
       else if \<not> io_ok e then Rejected StoreUnavailable
       else if update_refused b then Rejected WriteError
       else Responded \<lparr>status = 200, payload = JNull\<rparr>)"
    by (simp add: put_task_def connectDB_def connects_def findByIdAndUpdate_def absent)
  have well_docs: "docs (snd (put_task e (WellFormed i) b s)) = docs s"
    by (simp add: put_task_def connectDB_def findByIdAndUpdate_def absent)
  have ill: "fst (put_task e IllFormed b s) =
      Rejected (if connects e s then CastError else StoreUnavailable)"
    by (simp add: put_task_unconnected put_task_ill_formed)
  have ill_docs: "docs (snd (put_task e IllFormed b s)) = docs s"
    by (cases "connects e s") (simp_all add: put_task_unconnected put_task_ill_formed)
  show ?thesis
    unfolding well well_docs ill ill_docs
    by (simp add: status_of_def served_def)
qed

theorem put_absent_id_witness:
  "findById 7 (docs one_task_store) = None \<and>
   served (up 200 1) one_task_store \<and> \<not> update_cast_error (title_body ''X'') \<and>
   \<not> update_refused (title_body ''X'') \<and>
   fst (put_task (up 200 1) (WellFormed 7) (title_body ''X'') one_task_store) =
     Responded \<lparr>status = 200, payload = JNull\<rparr> \<and>
   docs (snd (put_task (up 200 1) (WellFormed 7) (title_body ''X'') one_task_store)) =
     docs one_task_store \<and>
   status_of (fst (put_task (up 200 1) IllFormed (title_body ''X'') one_task_store)) = None"
proof -
  have f: "findById 7 (docs one_task_store) = None"
    by (simp add: one_task_store_eq task_a_def)
  have a: "served (up 200 1) one_task_store"
    by (rule served_up)
  have c: "\<not> update_cast_error (title_body ''X'')" "\<not> update_refused (title_body ''X'')"
    by (simp_all add: update_cast_error_def update_refused_def plain_title_body)
  show ?thesis
    using f a c put_absent_id [OF f, of "up 200 1" "title_body ''X''"] by simp
qed

text \<open>
  C3 as stated has the response status 404 when the store reports that the identifier is
  absent. The store reports it by returning \<open>null\<close>, and the handler sends whatever it got
  with status 200: no route sets a 404.
\<close>

theorem put_absent_counterexample:
  "findById 7 (docs one_task_store) = None \<and> served (up 200 1) one_task_store \<and>
   status_of (fst (put_task (up 200 1) (WellFormed 7) (title_body ''X'') one_task_store)) = Some 200 \<and>
   status_of (fst (put_task (up 200 1) (WellFormed 7) (title_body ''X'') one_task_store)) \<noteq> Some 404"
  by (simp add: served_def connects_def one_task_store_eq task_a_def put_task_def connectDB_def
      findByIdAndUpdate_def update_cast_error_def update_refused_def cast_errors_def
      date_error_def status_of_def up_def title_body_def empty_body_def)

text \<open>
  C4 fails on the update route. The schema requires a title and \<open>save\<close> enforces it when a
  Task is created, but \<open>findByIdAndUpdate\<close> is called without validators: a
  \<open>PUT /api/tasks/0\<close> with body \<open>{title: ""}\<close> on the store holding the Task titled
  \<open>"a"\<close> is answered with status 200 and leaves the stored Task with the empty title.
\<close>

theorem put_empty_title_stored:
  "findById 0 (docs one_task_store) =
     Some \<lparr>oid = Some 0, title = Has ''a'', description = Missing, dueDate = Missing,
           isCompleted = Has False, createdAt = Has 100\<rparr> \<and>
   put_task (up 200 1) (WellFormed 0) (title_body []) one_task_store =
     (Responded \<lparr>status = 200, payload = JTask \<lparr>oid = Some 0, title = Has [],
        description = Missing, dueDate = Missing, isCompleted = Has False, createdAt = Has 100\<rparr>\<rparr>,
      \<lparr>readyState = 1,
       docs = [\<lparr>oid = Some 0, title = Has [], description = Missing, dueDate = Missing,
                isCompleted = Has False, createdAt = Has 100\<rparr>]\<rparr>)"
  by (simp add: one_task_store_eq task_a_def put_task_def connectDB_def findByIdAndUpdate_def
      update_cast_error_def update_refused_def update_effect_def cast_errors_def date_error_def
      apply_paths_def assign_def assign_id_def up_def title_body_def empty_body_def)

text \<open>
  C5, as amended. A \<open>PUT /api/tasks/:id\<close> whose body has no update operators and does not
  name \<open>createdAt\<close> leaves the \<open>createdAt\<close> of every stored Task as it was, the matching
  one included, whatever else the body sets, whatever the parameter and whether or not the
  store answers.
\<close>

theorem put_keeps_createdAt:
  assumes "b_operators b = NoOperators" and "b_createdAt b = Absent"
  shows "map createdAt (docs (snd (put_task e p b s))) = map createdAt (docs s) \<and>
         map_option createdAt (findById j (docs (snd (put_task e p b s)))) =
         map_option createdAt (findById j (docs s))"
proof -
  from put_task_docs [of e p b s] show ?thesis
  proof
    assume "docs (snd (put_task e p b s)) = docs s"
    then show ?thesis by simp
  next
    assume "\<exists>i r. p = WellFormed i \<and>
      update_docs i (update_effect b) (docs s) = Inr (r, docs (snd (put_task e p b s)))"
    then obtain i r where
      upd: "update_docs i (update_effect b) (docs s) = Inr (r, docs (snd (put_task e p b s)))"
      by blast
    have keep: "createdAt t' = createdAt t" if "update_effect b t = Inr t'" for t t'
      using that assms by (auto simp: update_effect_def apply_paths_def assign_def)
    have same: "map (\<lambda>t. (oid t, createdAt t)) (docs (snd (put_task e p b s))) =
        map (\<lambda>t. (oid t, createdAt t)) (docs s)"
      by (rule update_docs_keeps [OF upd keep])
    from same have "map createdAt (docs (snd (put_task e p b s))) = map createdAt (docs s)"
      by (rule map_keeps)
    moreover from same
    have "map_option createdAt (findById j (docs (snd (put_task e p b s)))) =
        map_option createdAt (findById j (docs s))"
      by (rule findById_cong_map)
    ultimately show ?thesis by simp
  qed
qed

theorem put_keeps_createdAt_witness:
  "b_operators (title_body ''X'') = NoOperators \<and> b_createdAt (title_body ''X'') = Absent \<and>
   map createdAt (docs (snd
      (put_task (up 200 1) (WellFormed 0) (title_body ''X'') one_task_store))) = [Has 100] \<and>
   map_option createdAt (findById 0 (docs (snd
      (put_task (up 200 1) (WellFormed 0) (title_body ''X'') one_task_store)))) = Some (Has 100) \<and>
   map_option createdAt (findById 0 (docs one_task_store)) = Some (Has 100)"
proof -
  have o: "b_operators (title_body ''X'') = NoOperators"
    by (simp add: plain_title_body)
  have b: "b_createdAt (title_body ''X'') = Absent"
    by (simp add: title_body_def empty_body_def)
  have c: "map_option createdAt (findById 0 (docs one_task_store)) = Some (Has 100)"
    by (simp add: one_task_store_eq task_a_def)
  have l: "map createdAt (docs one_task_store) = [Has 100]"
    by (simp add: one_task_store_eq task_a_def)
  show ?thesis
    using o b c l put_keeps_createdAt [OF o b, where j = 0 and e = "up 200 1" and p = "WellFormed 0"
        and s = one_task_store]
    by simp
qed

text \<open>
  C5 as stated holds for any body. \<open>createdAt\<close> is an ordinary path of the schema, so a
  body that names it replaces it: the Task created at time 100 has \<open>createdAt = 5\<close> after
  a served \<open>PUT\<close> with body \<open>{createdAt: 5}\<close>.
\<close>

theorem put_createdAt_counterexample:
  "map_option createdAt (findById 0 (docs one_task_store)) = Some (Has 100) \<and>
   map_option createdAt (findById 0 (docs (snd
      (put_task (up 200 1) (WellFormed 0) (empty_body\<lparr>b_createdAt := Val 5\<rparr>) one_task_store)))) =
     Some (Has 5)"
  by (simp add: one_task_store_eq task_a_def put_task_def connectDB_def findByIdAndUpdate_def
      update_cast_error_def update_refused_def update_effect_def cast_errors_def date_error_def
      valid_date_def apply_paths_def assign_def assign_id_def up_def empty_body_def)

text \<open>
  C6. A \<open>POST /api/tasks\<close> whose body has no title, a \<open>null\<close> one or the empty one
  writes no response and adds nothing to the collection: the handler stops with the
  \<open>ValidationError\<close> of \<open>save\<close> (or, when the connection cannot be made, with the
  connection error before the document is built).
\<close>

theorem post_without_title_rejected:
  assumes "b_title b = Absent \<or> b_title b = Null \<or> b_title b = Val []"
  shows "fst (post_tasks e b s) =
           Rejected (if connects e s then ValidationError else StoreUnavailable) \<and>
         docs (snd (post_tasks e b s)) = docs s"
proof -
  from assms have "\<not> checkRequired (assign (b_title b) Missing)"
    by (auto simp: checkRequired_def assign_def)
  then show ?thesis
    by (simp add: post_tasks_invalid post_tasks_unconnected)
qed

theorem post_without_title_rejected_witness:
  "(b_title (title_body []) = Absent \<or> b_title (title_body []) = Null \<or>
    b_title (title_body []) = Val []) \<and>
   fst (post_tasks (up 100 0) (title_body []) init_store) = Rejected ValidationError \<and>
   docs (snd (post_tasks (up 100 0) (title_body []) init_store)) = docs init_store"
proof -
  have t: "b_title (title_body []) = Absent \<or> b_title (title_body []) = Null \<or>
      b_title (title_body []) = Val []"
    by (simp add: title_body_def)
  have a: "connects (up 100 0) init_store"
    by (simp add: connects_def up_def)
  show ?thesis
    using t a post_without_title_rejected [OF t, of "up 100 0" init_store] by simp
qed

text \<open>
  C7. Starting from an empty collection, if a \<open>POST\<close> is answered 201 with Task \<open>A\<close> and
  the next \<open>POST\<close> is answered 201 with Task \<open>B\<close>, then a \<open>GET /api/tasks\<close> whose query
  the store answers gets status 200 and an array of two elements whose set is \<open>{A, B}\<close>;
  \<open>A\<close> and \<open>B\<close> are different records. Only the set of elements is stated, not their
  order.
\<close>

theorem get_after_two_posts:
  assumes "docs s0 = []"
    and "post_tasks e1 bA s0 = (Responded \<lparr>status = 201, payload = JTask A\<rparr>, s1)"
    and "post_tasks e2 bB s1 = (Responded \<lparr>status = 201, payload = JTask B\<rparr>, s2)"
    and "io_ok e3"
  shows "\<exists>l. get_tasks e3 s2 = (Responded \<lparr>status = 200, payload = JTasks l\<rparr>, s2) \<and>
           set l = {A, B} \<and> length l = 2 \<and> A \<noteq> B"
proof -
  from post_tasks_Responded [OF assms(2)] assms(1)
  have 1: "docs s1 = [A]"
    by auto
  from post_tasks_Responded [OF assms(3)] 1
  have 2: "docs s2 = [A, B]" "oid B \<noteq> oid A" "readyState s2 \<ge> 1"
    by auto
  from 2 have "A \<noteq> B" by auto
  moreover from 2 assms(4)
  have "get_tasks e3 s2 = (Responded \<lparr>status = 200, payload = JTasks [A, B]\<rparr>, s2)"
    by (simp add: get_tasks_def connectDB_def find_all_def)
  ultimately show ?thesis by auto
qed

theorem get_after_two_posts_witness:
  "docs init_store = [] \<and>
   post_tasks (up 100 0) (title_body ''a'') init_store =
     (Responded \<lparr>status = 201, payload = JTask \<lparr>oid = Some 0, title = Has ''a'',
        description = Missing, dueDate = Missing, isCompleted = Has False, createdAt = Has 100\<rparr>\<rparr>,
      one_task_store) \<and>
   post_tasks (up 150 1) (title_body ''b'') one_task_store =
     (Responded \<lparr>status = 201, payload = JTask \<lparr>oid = Some 1, title = Has ''b'',
        description = Missing, dueDate = Missing, isCompleted = Has False, createdAt = Has 150\<rparr>\<rparr>,
      snd (post_tasks (up 150 1) (title_body ''b'') one_task_store)) \<and>
   io_ok (up 200 2) \<and>
   (\<exists>l. get_tasks (up 200 2) (snd (post_tasks (up 150 1) (title_body ''b'') one_task_store)) =
           (Responded \<lparr>status = 200, payload = JTasks l\<rparr>,
            snd (post_tasks (up 150 1) (title_body ''b'') one_task_store)) \<and>
         set l = {\<lparr>oid = Some 0, title = Has ''a'', description = Missing,
                    dueDate = Missing, isCompleted = Has False, createdAt = Has 100\<rparr>,
                  \<lparr>oid = Some 1, title = Has ''b'', description = Missing,
                    dueDate = Missing, isCompleted = Has False, createdAt = Has 150\<rparr>} \<and>
         length l = 2)"
proof -
  let ?A = "\<lparr>oid = Some (0 :: oid), title = Has ''a'', description = Missing,
        dueDate = Missing, isCompleted = Has False, createdAt = Has (100 :: date)\<rparr>"
  let ?B = "\<lparr>oid = Some (1 :: oid), title = Has ''b'', description = Missing,
        dueDate = Missing, isCompleted = Has False, createdAt = Has (150 :: date)\<rparr>"
  let ?s2 = "snd (post_tasks (up 150 1) (title_body ''b'') one_task_store)"
  have 0: "docs init_store = []"
    by (simp add: init_store_def)
  have 1: "post_tasks (up 100 0) (title_body ''a'') init_store =
      (Responded \<lparr>status = 201, payload = JTask ?A\<rparr>, one_task_store)"
    by (simp add: one_task_store_eq task_a_def post_tasks_def connectDB_def new_Task_def
        save_def checkRequired_def cast_errors_def date_error_def assign_def assign_id_def
        up_def title_body_def empty_body_def init_store_def)
  have 2: "post_tasks (up 150 1) (title_body ''b'') one_task_store =
      (Responded \<lparr>status = 201, payload = JTask ?B\<rparr>, ?s2)"
    by (simp add: one_task_store_eq task_a_def post_tasks_def connectDB_def new_Task_def
        save_def checkRequired_def cast_errors_def date_error_def assign_def assign_id_def
        up_def title_body_def empty_body_def)
  have 3: "io_ok (up 200 2)"
    by (simp add: up_def)
  show ?thesis
    using 0 1 2 3 get_after_two_posts [OF 0 1 2 3] by auto
qed




text \<open>
  C10. For a Task \<open>t\<close> stored under \<open>i\<close>, a \<open>PUT /api/tasks/i\<close> with the empty body
  \<open>{}\<close>, served while no store call fails, is answered with status 200 and \<open>t\<close>, and
  the collection is left as it was.
\<close>

theorem put_empty_body_identity:
  assumes "served e s" and "findById i (docs s) = Some t"
  shows "fst (put_task e (WellFormed i) empty_body s) =
           Responded \<lparr>status = 200, payload = JTask t\<rparr> \<and>
         docs (snd (put_task e (WellFormed i) empty_body s)) = docs s"
proof -
  have "update_docs i (\<lambda>t. Inr (apply_paths empty_body t)) (docs s) = Inr (Some t, docs s)"
    by (rule update_docs_same [OF assms(2)]) (simp add: apply_paths_empty)
  then show ?thesis
    using assms(1) by (simp add: put_task_served plain_empty_body)
qed

theorem put_empty_body_identity_witness:
  "served (up 200 1) one_task_store \<and>
   findById 0 (docs one_task_store) =
     Some \<lparr>oid = Some 0, title = Has ''a'', description = Missing, dueDate = Missing,
           isCompleted = Has False, createdAt = Has 100\<rparr> \<and>
   fst (put_task (up 200 1) (WellFormed 0) empty_body one_task_store) =
     Responded \<lparr>status = 200, payload = JTask \<lparr>oid = Some 0, title = Has ''a'',
       description = Missing, dueDate = Missing, isCompleted = Has False, createdAt = Has 100\<rparr>\<rparr> \<and>
   docs (snd (put_task (up 200 1) (WellFormed 0) empty_body one_task_store)) = docs one_task_store"
proof -
  have a: "served (up 200 1) one_task_store"
    by (rule served_up)
  have f: "findById 0 (docs one_task_store) = Some task_a"
    by (simp add: one_task_store_eq task_a_def)
  show ?thesis
    using a f put_empty_body_identity [OF a f] by (simp add: task_a_def)
qed

end
